theory Spec2Isabelle
  imports Main "HOL-Library.Sublist"
begin

section \<open>WebFetch: the fetch-and-extract pipeline of \<^verbatim>\<open>src/WebFetch/main.py\<close>\<close>

text \<open>
  The class \<^verbatim>\<open>WebFetchMCP\<close> fetches a page over HTTP and derives content, metadata,
  links and search matches from it. The model below follows the methods
  \<^verbatim>\<open>_fetch_webpage\<close>, \<^verbatim>\<open>_fetch_multiple_pages\<close>, \<^verbatim>\<open>_search_webpage_content\<close>,
  \<^verbatim>\<open>_extract_links\<close> and \<^verbatim>\<open>_extract_metadata\<close> (named here without the leading
  underscore). Python strings are lists of characters, one \<^typ>\<open>char\<close> standing for one
  code point; Python integers are \<^typ>\<open>int\<close>, lengths and indices that cannot be
  negative are \<^typ>\<open>nat\<close>. Third-party libraries (aiohttp, BeautifulSoup, trafilatura,
  urllib) are not part of the repository: what they return is a parameter of the model,
  collected in the record \<open>env\<close>, and the few library functions whose behaviour the
  program relies on (\<^verbatim>\<open>str.find\<close>, slicing, \<^verbatim>\<open>strip\<close>, \<^verbatim>\<open>splitlines\<close>, \<^verbatim>\<open>split\<close>,
  \<^verbatim>\<open>join\<close>, the tree queries of BeautifulSoup, \<^verbatim>\<open>raise_for_status\<close>) are written out.
\<close>

subsection \<open>Python strings\<close>

text \<open>\<^verbatim>\<open>str.isspace\<close> on the code points below 256.\<close>

definition isspace :: "char \<Rightarrow> bool" where
  "isspace c = (c \<in> set [CHR 0x09, CHR 0x0A, CHR 0x0B, CHR 0x0C, CHR 0x0D,
                           CHR 0x1C, CHR 0x1D, CHR 0x1E, CHR 0x1F, CHR 0x20,
                           CHR 0x85, CHR 0xA0])"

text \<open>\<^verbatim>\<open>s.strip()\<close>: leading and trailing whitespace removed.\<close>

definition strip :: "string \<Rightarrow> string" where
  "strip s = rev (dropWhile isspace (rev (dropWhile isspace s)))"

text \<open>\<^verbatim>\<open>s.startswith(p)\<close>.\<close>

definition startswith :: "string \<Rightarrow> string \<Rightarrow> bool" where
  "startswith s p = (take (length p) s = p)"

text \<open>The line boundaries of \<^verbatim>\<open>str.splitlines\<close> below 256; \<^verbatim>\<open>\r\n\<close> is one boundary.\<close>

definition is_linebreak :: "char \<Rightarrow> bool" where
  "is_linebreak c = (c \<in> set [CHR 0x0A, CHR 0x0B, CHR 0x0C, CHR 0x0D,
                                CHR 0x1C, CHR 0x1D, CHR 0x1E, CHR 0x85])"

fun splitlines_acc :: "string \<Rightarrow> string \<Rightarrow> string list" where
  "splitlines_acc acc [] = (if acc = [] then [] else [acc])"
| "splitlines_acc acc (c # cs) =
     (if c = CHR 0x0D \<and> startswith cs [CHR 0x0A] then acc # splitlines_acc [] (tl cs)
      else if is_linebreak c then acc # splitlines_acc [] cs
      else splitlines_acc (acc @ [c]) cs)"

definition splitlines :: "string \<Rightarrow> string list" where
  "splitlines s = splitlines_acc [] s"

text \<open>
  \<^verbatim>\<open>s.split(sep)\<close> for a non-empty separator: cut at each occurrence, left to right,
  occurrences not overlapping. (Python raises \<^verbatim>\<open>ValueError\<close> for an empty separator;
  the program only passes two spaces.)
\<close>

fun split_acc :: "string \<Rightarrow> string \<Rightarrow> string \<Rightarrow> string list" where
  "split_acc sep acc [] = [acc]"
| "split_acc sep acc (c # cs) =
     (if sep \<noteq> [] \<and> startswith (c # cs) sep
      then acc # split_acc sep [] (drop (length sep - 1) cs)
      else split_acc sep (acc @ [c]) cs)"

definition str_split :: "string \<Rightarrow> string \<Rightarrow> string list" where
  "str_split s sep = split_acc sep [] s"

text \<open>\<^verbatim>\<open>sep.join(xs)\<close>.\<close>

fun join :: "string \<Rightarrow> string list \<Rightarrow> string" where
  "join sep [] = []"
| "join sep [x] = x"
| "join sep (x # y # ys) = x @ sep @ join sep (y # ys)"

text \<open>
  \<^verbatim>\<open>s.find(sub, start)\<close> for \<open>start \<ge> 0\<close>: the lowest index \<open>i \<ge> start\<close> at which \<open>sub\<close>
  occurs in \<open>s\<close>. \<open>None\<close> is Python's \<open>-1\<close>. The empty string occurs at every index up
  to and including \<open>len(s)\<close>.
\<close>

function str_find :: "string \<Rightarrow> string \<Rightarrow> nat \<Rightarrow> nat option" where
  "str_find s sub start =
     (if length s < start + length sub then None
      else if take (length sub) (drop start s) = sub then Some start
      else str_find s sub (Suc start))"
  by pat_completeness auto
termination
  by (relation "measure (\<lambda>(s, sub, start). Suc (length s) - start)") auto

declare str_find.simps [simp del]

text \<open>
  A slice \<^verbatim>\<open>s[a:b]\<close>: a negative index counts from the end, and both indices are
  clamped to \<open>0 .. len(s)\<close>.
\<close>

definition slice_index :: "nat \<Rightarrow> int \<Rightarrow> nat" where
  "slice_index n i = (if i < 0 then nat (max 0 (int n + i)) else min n (nat i))"

definition py_slice :: "string \<Rightarrow> int \<Rightarrow> int \<Rightarrow> string" where
  "py_slice s a b =
     (let i = slice_index (length s) a; j = slice_index (length s) b
      in take (j - i) (drop i s))"

text \<open>The decimal digits of a number, as \<^verbatim>\<open>str.format\<close> prints an integer.\<close>

function decimal :: "nat \<Rightarrow> string" where
  "decimal n =
     (if n < 10 then [char_of (48 + n)]
      else decimal (n div 10) @ [char_of (48 + n mod 10)])"
  by pat_completeness auto
termination
  by (relation "measure id") auto

declare decimal.simps [simp del]

subsection \<open>The document tree of BeautifulSoup\<close>

text \<open>
  \<^verbatim>\<open>BeautifulSoup(html, 'html.parser')\<close> returns a tree: a tag has a name (lower-cased
  by the parser), an attribute dictionary and a list of children; text is a
  \<^verbatim>\<open>NavigableString\<close>; a comment is a string that \<^verbatim>\<open>get_text\<close> leaves out. The
  soup itself is a tag named \<^verbatim>\<open>[document]\<close>.
\<close>

datatype node =
    Tag string "(string \<times> string) list" "node list"
  | NavigableString string
  | Comment string

text \<open>\<^verbatim>\<open>tag.descendants\<close>: every node below the tag, in document order.\<close>

fun descendants :: "node \<Rightarrow> node list" where
  "descendants (Tag n a cs) = concat (map (\<lambda>c. c # descendants c) cs)"
| "descendants (NavigableString s) = []"
| "descendants (Comment s) = []"

fun is_tag :: "string \<Rightarrow> node \<Rightarrow> bool" where
  "is_tag name (Tag n a cs) = (n = name)"
| "is_tag name (NavigableString s) = False"
| "is_tag name (Comment s) = False"

text \<open>\<^verbatim>\<open>tag.get(key, default)\<close> and \<^verbatim>\<open>key in tag.attrs\<close>.\<close>

fun tag_get :: "node \<Rightarrow> string \<Rightarrow> string \<Rightarrow> string" where
  "tag_get (Tag n a cs) key dflt = (case map_of a key of None \<Rightarrow> dflt | Some v \<Rightarrow> v)"
| "tag_get (NavigableString s) key dflt = dflt"
| "tag_get (Comment s) key dflt = dflt"

fun has_attr :: "node \<Rightarrow> string \<Rightarrow> bool" where
  "has_attr (Tag n a cs) key = (map_of a key \<noteq> None)"
| "has_attr (NavigableString s) key = False"
| "has_attr (Comment s) key = False"

text \<open>\<^verbatim>\<open>soup.find_all(name)\<close> and \<^verbatim>\<open>soup.find(name)\<close> (the first one, or \<^verbatim>\<open>None\<close>).\<close>

definition find_all :: "node \<Rightarrow> string \<Rightarrow> node list" where
  "find_all soup name = filter (is_tag name) (descendants soup)"

definition find_first :: "node list \<Rightarrow> node option" where
  "find_first found = (case found of [] \<Rightarrow> None | t # ts \<Rightarrow> Some t)"

text \<open>\<^verbatim>\<open>soup.find_all('a', href=True)\<close>: the anchors that carry an \<^verbatim>\<open>href\<close>.\<close>

definition find_all_a_href :: "node \<Rightarrow> node list" where
  "find_all_a_href soup = filter (\<lambda>t. has_attr t ''href'') (find_all soup ''a'')"

text \<open>
  \<^verbatim>\<open>soup.find('link', rel='canonical')\<close>. The parser stores \<^verbatim>\<open>rel\<close> of a \<^verbatim>\<open>link\<close>
  as the list of its whitespace-separated values, and the search matches when one of
  them is \<^verbatim>\<open>canonical\<close>.
\<close>

fun words_acc :: "string \<Rightarrow> string \<Rightarrow> string list" where
  "words_acc acc [] = (if acc = [] then [] else [acc])"
| "words_acc acc (c # cs) =
     (if isspace c then (if acc = [] then words_acc [] cs else acc # words_acc [] cs)
      else words_acc (acc @ [c]) cs)"

definition rel_canonical :: "node \<Rightarrow> bool" where
  "rel_canonical t =
     (has_attr t ''rel'' \<and> ''canonical'' \<in> set (words_acc [] (tag_get t ''rel'' [])))"

definition find_link_canonical :: "node \<Rightarrow> node option" where
  "find_link_canonical soup = find_first (filter rel_canonical (find_all soup ''link''))"

text \<open>\<^verbatim>\<open>tag.get_text()\<close>: the text strings below the tag, concatenated.\<close>

fun text_of :: "node \<Rightarrow> string list" where
  "text_of (NavigableString s) = [s]"
| "text_of (Tag n a cs) = []"
| "text_of (Comment s) = []"

definition get_text :: "node \<Rightarrow> string" where
  "get_text t = concat (concat (map text_of (descendants t)))"

text \<open>\<^verbatim>\<open>tag.get_text(strip=True)\<close>: each string stripped, the empty ones dropped.\<close>

definition get_text_strip :: "node \<Rightarrow> string" where
  "get_text_strip t =
     concat (filter (\<lambda>s. s \<noteq> []) (map strip (concat (map text_of (descendants t)))))"

text \<open>
  \<^verbatim>\<open>for script in soup(["script", "style"]): script.extract()\<close>: every tag with one
  of the names leaves the tree, with all it contains.
\<close>

fun is_tag_in :: "string list \<Rightarrow> node \<Rightarrow> bool" where
  "is_tag_in names (Tag n a cs) = (n \<in> set names)"
| "is_tag_in names (NavigableString s) = False"
| "is_tag_in names (Comment s) = False"

fun extract_tags :: "string list \<Rightarrow> node \<Rightarrow> node" where
  "extract_tags names (Tag n a cs) =
     Tag n a (map (extract_tags names) (filter (\<lambda>c. \<not> is_tag_in names c) cs))"
| "extract_tags names (NavigableString s) = NavigableString s"
| "extract_tags names (Comment s) = Comment s"

subsection \<open>The outside world\<close>

text \<open>
  Exceptions are values. \<open>ClientResponseError status message url\<close> is what aiohttp's
  \<^verbatim>\<open>raise_for_status\<close> raises; \<open>OtherException text\<close> is any other exception (network,
  timeout, decoding, parsing), carrying the text that \<^verbatim>\<open>str(e)\<close> gives.
\<close>

datatype exn =
    KeyError string
  | ValueError string
  | ClientResponseError nat string string
  | OtherException string

text \<open>What \<^verbatim>\<open>session.get(url)\<close> delivers when it does not raise.\<close>

record response =
  status :: nat
  reason :: string
  header_content_type :: "string option"
  text_body :: "exn + string"

text \<open>
  The collaborators: the HTTP session, the primary content extractor, the HTML parser,
  \<^verbatim>\<open>urllib.parse\<close>, \<^verbatim>\<open>str.lower\<close> and \<^verbatim>\<open>repr\<close> of a string. Each may be any function;
  a call that can raise returns a sum.
\<close>

record env =
  session_get :: "string \<Rightarrow> exn + response"
  trafilatura_extract :: "string \<Rightarrow> exn + string option"
  BeautifulSoup :: "string \<Rightarrow> node"
  urljoin :: "string \<Rightarrow> string \<Rightarrow> exn + string"
  urlparse_netloc :: "string \<Rightarrow> exn + string"
  lower :: "string \<Rightarrow> string"
  repr :: "string \<Rightarrow> string"

text \<open>
  aiohttp: \<^verbatim>\<open>response.ok\<close> is \<^verbatim>\<open>400 > status\<close>, and \<^verbatim>\<open>raise_for_status\<close> raises
  \<^verbatim>\<open>ClientResponseError\<close> when the response is not ok. Its \<^verbatim>\<open>__str__\<close> is
  \<^verbatim>\<open>"{}, message={!r}, url={!r}".format(status, message, url)\<close>.
\<close>

definition raise_for_status :: "string \<Rightarrow> response \<Rightarrow> exn + unit" where
  "raise_for_status url r =
     (if 400 > status r then Inr () else Inl (ClientResponseError (status r) (reason r) url))"

fun str_exn :: "env \<Rightarrow> exn \<Rightarrow> string" where
  "str_exn E (KeyError k) = repr E k"
| "str_exn E (ValueError m) = m"
| "str_exn E (ClientResponseError st msg url) =
     decimal st @ '', message='' @ repr E msg @ '', url='' @ repr E url"
| "str_exn E (OtherException m) = m"

subsection \<open>Requests and responses\<close>

text \<open>
  Every tool receives its arguments as a dictionary \<^verbatim>\<open>args\<close>; a key that is absent is
  \<open>None\<close>. \<^verbatim>\<open>args["k"]\<close> raises \<^verbatim>\<open>KeyError\<close> on an absent key, \<^verbatim>\<open>args.get("k", d)\<close>
  gives \<open>d\<close>.
\<close>

record args =
  arg_url :: "string option"
  arg_urls :: "string list option"
  arg_extract_content :: "bool option"
  arg_include_metadata :: "bool option"
  arg_timeout :: "int option"
  arg_max_concurrent :: "int option"
  arg_search_terms :: "string list option"
  arg_case_sensitive :: "bool option"
  arg_context_chars :: "int option"
  arg_filter_internal :: "bool option"
  arg_filter_external :: "bool option"
  arg_include_anchors :: "bool option"

definition get_or :: "'a option \<Rightarrow> 'a \<Rightarrow> 'a" where
  "get_or v d = (case v of None \<Rightarrow> d | Some x \<Rightarrow> x)"

text \<open>
  The dictionary \<^verbatim>\<open>_fetch_webpage\<close> returns on success: the keys \<^verbatim>\<open>metadata\<close>,
  \<^verbatim>\<open>content\<close> and \<^verbatim>\<open>raw_html\<close> are present or not, the others always.
\<close>

record page =
  page_url :: string
  status_code :: nat
  content_type :: string
  content_length :: nat
  page_metadata :: "(string \<rightharpoonup> string) option"
  page_content :: "string option"
  page_raw_html :: "string option"

text \<open>The dictionary \<^verbatim>\<open>{"url": url, "error": str(e), "status": "failed"}\<close>.\<close>

record failure =
  failed_url :: string
  error :: string
  failed_status :: string

text \<open>
  The dictionaries that stand for one page: a fetched page, a failure, and
  \<^verbatim>\<open>{"error": str(r)}\<close>, which the batch builds from an exception object.
  \<open>has_error r\<close> is \<^verbatim>\<open>"error" in r\<close>.
\<close>

datatype result_dict = Fetched page | Failed failure | ErrorOnly string



text \<open>
  A search match: the keys \<^verbatim>\<open>term\<close>, \<^verbatim>\<open>position\<close>, \<^verbatim>\<open>context\<close>, \<^verbatim>\<open>context_start\<close>
  and \<^verbatim>\<open>context_end\<close>.
\<close>

record search_match =
  match_term :: string
  match_position :: int
  match_context :: string
  match_context_start :: int
  match_context_end :: int

record search_response =
  search_url :: string
  echoed_search_terms :: "string list"
  total_matches :: nat
  found_matches :: "search_match list"
  search_content_length :: nat

text \<open>\<^verbatim>\<open>_search_webpage_content\<close> returns the failure of the fetch as it is.\<close>

datatype search_result = Searched search_response | Unfetched result_dict

record link_info =
  link_url :: string
  link_text :: string
  link_title :: string
  link_is_internal :: bool
  link_is_external :: bool

record links_response =
  source_url :: string
  total_links :: nat
  internal_count :: nat
  external_count :: nat
  found_links :: "link_info list"

text \<open>The dictionary \<^verbatim>\<open>{"source_url": url, "error": str(e), "status": "failed"}\<close>.\<close>

record links_failure =
  failed_source_url :: string
  links_error :: string
  links_status :: string

datatype links_result = Links links_response | LinksFailed links_failure

subsection \<open>\<^verbatim>\<open>_extract_metadata\<close>\<close>

text \<open>One round of the loop over the \<^verbatim>\<open>meta\<close> tags: the chain of \<^verbatim>\<open>if\<close>/\<^verbatim>\<open>elif\<close>.\<close>

definition meta_step :: "env \<Rightarrow> (string \<rightharpoonup> string) \<Rightarrow> node \<Rightarrow> (string \<rightharpoonup> string)" where
  "meta_step E metadata meta =
     (let name = lower E (tag_get meta ''name'' []);
          property_name = lower E (tag_get meta ''property'' []);
          content = tag_get meta ''content'' []
      in if name = ''description'' then metadata(''description'' \<mapsto> content)
         else if name = ''keywords'' then metadata(''keywords'' \<mapsto> content)
         else if name = ''author'' then metadata(''author'' \<mapsto> content)
         else if property_name = ''og:title'' then metadata(''og_title'' \<mapsto> content)
         else if property_name = ''og:description'' then metadata(''og_description'' \<mapsto> content)
         else if property_name = ''og:image'' then metadata(''og_image'' \<mapsto> content)
         else if property_name = ''og:url'' then metadata(''og_url'' \<mapsto> content)
         else if property_name = ''og:type'' then metadata(''og_type'' \<mapsto> content)
         else if name = ''twitter:card'' then metadata(''twitter_card'' \<mapsto> content)
         else if name = ''twitter:title'' then metadata(''twitter_title'' \<mapsto> content)
         else if name = ''twitter:description'' then metadata(''twitter_description'' \<mapsto> content)
         else if name = ''twitter:image'' then metadata(''twitter_image'' \<mapsto> content)
         else metadata)"

definition extract_metadata :: "env \<Rightarrow> string \<Rightarrow> string \<Rightarrow> (string \<rightharpoonup> string)" where
  "extract_metadata E html_content u =
     (let soup = BeautifulSoup E html_content;
          title_tag = find_first (find_all soup ''title'');
          metadata = Map.empty(''title'' \<mapsto>
                       (case title_tag of Some t \<Rightarrow> get_text_strip t | None \<Rightarrow> []));
          meta_tags = find_all soup ''meta'';
          metadata = foldl (meta_step E) metadata meta_tags;
          canonical = find_link_canonical soup;
          metadata = (case canonical of
                        Some c \<Rightarrow> metadata(''canonical_url'' \<mapsto> tag_get c ''href'' [])
                      | None \<Rightarrow> metadata);
          html_tag = find_first (find_all soup ''html'');
          metadata = (case html_tag of
                        Some h \<Rightarrow> metadata(''language'' \<mapsto> tag_get h ''lang'' [])
                      | None \<Rightarrow> metadata)
      in metadata)"

subsection \<open>\<^verbatim>\<open>_fetch_webpage\<close>\<close>

text \<open>The fallback of the content extraction: the \<^verbatim>\<open>else\<close> branch under \<^verbatim>\<open>if extracted\<close>.\<close>

definition fallback_content :: "env \<Rightarrow> string \<Rightarrow> string" where
  "fallback_content E html_content =
     (let soup = extract_tags [''script'', ''style''] (BeautifulSoup E html_content);
          txt = get_text soup;
          lines = map strip (splitlines txt);
          chunks = concat (map (\<lambda>line. map strip (str_split line [CHR 0x20, CHR 0x20])) lines)
      in join [CHR 0x0A] (filter (\<lambda>chunk. chunk \<noteq> []) chunks))"

text \<open>\<^verbatim>\<open>if extracted:\<close> holds for a string that is not empty; \<^verbatim>\<open>None\<close> and \<^verbatim>\<open>""\<close> fail it.\<close>

fun truthy :: "string option \<Rightarrow> bool" where
  "truthy None = False"
| "truthy (Some s) = (s \<noteq> [])"


text \<open>The body of the \<^verbatim>\<open>try\<close> block; \<open>Inl e\<close> is an exception raised inside it.\<close>

definition fetch_try :: "env \<Rightarrow> string \<Rightarrow> bool \<Rightarrow> bool \<Rightarrow> exn + page" where
  "fetch_try E url extract_content include_metadata =
     (case session_get E url of
        Inl e \<Rightarrow> Inl e
      | Inr response \<Rightarrow>
          (case raise_for_status url response of
             Inl e \<Rightarrow> Inl e
           | Inr ok \<Rightarrow>
               (case text_body response of
                  Inl e \<Rightarrow> Inl e
                | Inr html_content \<Rightarrow>
                    (let result = \<lparr> page_url = url,
                                     status_code = status response,
                                     content_type = get_or (header_content_type response) [],
                                     content_length = length html_content,
                                     page_metadata = None,
                                     page_content = None,
                                     page_raw_html = None \<rparr>;
                         result = (if include_metadata
                                   then result\<lparr> page_metadata :=
                                                 Some (extract_metadata E html_content url) \<rparr>
                                   else result)
                     in if extract_content
                        then (case trafilatura_extract E html_content of
                                Inl e \<Rightarrow> Inl e
                              | Inr extracted \<Rightarrow>
                                  if truthy extracted
                                  then Inr (result\<lparr> page_content := extracted \<rparr>)
                                  else Inr (result\<lparr> page_content :=
                                                      Some (fallback_content E html_content) \<rparr>))
                        else Inr (result\<lparr> page_raw_html := Some html_content \<rparr>)))))"

text \<open>
  \<^verbatim>\<open>_fetch_webpage\<close>: \<^verbatim>\<open>args["url"]\<close> is read before the \<^verbatim>\<open>try\<close>; \<^verbatim>\<open>except Exception\<close>
  turns whatever the block raises into the failure dictionary. The outer \<open>Inl\<close> is an
  exception that leaves the method.
\<close>

definition fetch_webpage :: "env \<Rightarrow> args \<Rightarrow> exn + result_dict" where
  "fetch_webpage E a =
     (case arg_url a of
        None \<Rightarrow> Inl (KeyError ''url'')
      | Some url \<Rightarrow>
          (let extract_content = get_or (arg_extract_content a) True;
               include_metadata = get_or (arg_include_metadata a) True
           in case fetch_try E url extract_content include_metadata of
                Inr result \<Rightarrow> Inr (Fetched result)
              | Inl e \<Rightarrow> Inr (Failed \<lparr> failed_url = url, error = str_exn E e,
                                       failed_status = ''failed'' \<rparr>)))"

subsection \<open>\<^verbatim>\<open>_fetch_multiple_pages\<close>\<close>

text \<open>The dictionary that \<^verbatim>\<open>fetch_single\<close> hands to \<^verbatim>\<open>_fetch_webpage\<close>.\<close>

definition no_args :: args where
  "no_args = \<lparr> arg_url = None, arg_urls = None, arg_extract_content = None,
               arg_include_metadata = None, arg_timeout = None, arg_max_concurrent = None,
               arg_search_terms = None, arg_case_sensitive = None, arg_context_chars = None,
               arg_filter_internal = None, arg_filter_external = None,
               arg_include_anchors = None \<rparr>"






subsection \<open>\<^verbatim>\<open>_search_webpage_content\<close>\<close>

text \<open>The body of the \<^verbatim>\<open>while\<close> loop after a hit at \<open>pos\<close>: the dictionary appended.\<close>

definition new_match :: "string \<Rightarrow> int \<Rightarrow> string \<Rightarrow> nat \<Rightarrow> search_match" where
  "new_match content context_chars term pos =
     (let context_start = max 0 (int pos - context_chars div 2);
          context_end = min (int (length content))
                            (int pos + int (length term) + context_chars div 2);
          context = py_slice content context_start context_end
      in \<lparr> match_term = term, match_position = int pos, match_context = context,
           match_context_start = context_start, match_context_end = context_end \<rparr>)"

text \<open>A hit of \<^verbatim>\<open>find\<close> lies between \<open>start\<close> and the end of the string.\<close>

lemma str_find_bounds:
  "str_find s sub start = Some pos \<Longrightarrow> start \<le> pos \<and> pos + length sub \<le> length s"
proof (induction s sub start rule: str_find.induct)
  case (1 s sub start)
  show ?case
  proof (cases "length s < start + length sub")
    case True
    with "1.prems" show ?thesis by (simp add: str_find.simps [of s sub start])
  next
    case False
    note inside = this
    show ?thesis
    proof (cases "take (length sub) (drop start s) = sub")
      case True
      with inside "1.prems" show ?thesis by (simp add: str_find.simps [of s sub start])
    next
      case False
      with inside "1.prems" have "str_find s sub (Suc start) = Some pos"
        by (simp add: str_find.simps [of s sub start])
      with "1.IH" [OF inside False] show ?thesis by simp
    qed
  qed
qed

text \<open>
  The \<^verbatim>\<open>while True\<close> loop for one term, from \<open>start\<close>: the matches it appends. It
  ends because every round moves \<open>start\<close> past the hit.
\<close>

function scan_term :: "string \<Rightarrow> string \<Rightarrow> int \<Rightarrow> string \<Rightarrow> nat \<Rightarrow> search_match list" where
  "scan_term content search_content context_chars term start =
     (case str_find search_content term start of
        None \<Rightarrow> []
      | Some pos \<Rightarrow> new_match content context_chars term pos
                    # scan_term content search_content context_chars term (pos + 1))"
  by pat_completeness auto
termination
proof (relation "measure (\<lambda>(content, search_content, context_chars, term, start).
                            Suc (length search_content) - start)")
  show "wf (measure (\<lambda>(content :: string, search_content :: string, context_chars :: int,
                        term :: string, start). Suc (length search_content) - start))"
    by simp
next
  fix content search_content :: string and context_chars :: int and t :: string
    and start pos :: nat
  assume "str_find search_content t start = Some pos"
  then have "start \<le> pos \<and> pos + length t \<le> length search_content"
    by (rule str_find_bounds)
  then show "((content, search_content, context_chars, t, pos + 1),
              (content, search_content, context_chars, t, start))
             \<in> measure (\<lambda>(content, search_content, context_chars, term, start).
                           Suc (length search_content) - start)"
    by (simp, arith)
qed

declare scan_term.simps [simp del]

text \<open>The loop over the terms, after the lower-casing of the insensitive mode.\<close>

definition find_matches :: "env \<Rightarrow> string \<Rightarrow> string list \<Rightarrow> bool \<Rightarrow> int \<Rightarrow> search_match list" where
  "find_matches E content search_terms case_sensitive context_chars =
     (let search_content = (if \<not> case_sensitive then lower E content else content);
          search_terms = (if \<not> case_sensitive then map (lower E) search_terms else search_terms)
      in concat (map (\<lambda>term. scan_term content search_content context_chars term 0)
                     search_terms))"

definition search_webpage_content :: "env \<Rightarrow> args \<Rightarrow> exn + search_result" where
  "search_webpage_content E a =
     (case arg_url a of
        None \<Rightarrow> Inl (KeyError ''url'')
      | Some url \<Rightarrow>
          (case arg_search_terms a of
             None \<Rightarrow> Inl (KeyError ''search_terms'')
           | Some search_terms \<Rightarrow>
               (let case_sensitive = get_or (arg_case_sensitive a) False;
                    context_chars = get_or (arg_context_chars a) 200
                in case fetch_webpage E (no_args\<lparr> arg_url := Some url,
                                                   arg_extract_content := Some True,
                                                   arg_include_metadata := Some False \<rparr>) of
                     Inl e \<Rightarrow> Inl e
                   | Inr (Failed f) \<Rightarrow> Inr (Unfetched (Failed f))
                   | Inr (ErrorOnly m) \<Rightarrow> Inr (Unfetched (ErrorOnly m))
                   | Inr (Fetched webpage_result) \<Rightarrow>
                       (let content = get_or (page_content webpage_result) [];
                            matches = find_matches E content search_terms case_sensitive
                                                   context_chars
                        in Inr (Searched \<lparr> search_url = url,
                                           echoed_search_terms = search_terms,
                                           total_matches = length matches,
                                           found_matches = matches,
                                           search_content_length = length content \<rparr>)))))"

subsection \<open>\<^verbatim>\<open>_extract_links\<close>\<close>

text \<open>
  The loop over the anchors: the links appended, or the first exception that
  \<^verbatim>\<open>urljoin\<close> or \<^verbatim>\<open>urlparse\<close> raises.
\<close>

fun collect_links ::
    "env \<Rightarrow> string \<Rightarrow> string \<Rightarrow> bool \<Rightarrow> bool \<Rightarrow> bool \<Rightarrow> node list \<Rightarrow> exn + link_info list" where
  "collect_links E url base_domain filter_internal filter_external include_anchors [] = Inr []"
| "collect_links E url base_domain filter_internal filter_external include_anchors (link # rest) =
     (let href = tag_get link ''href'' []
      in if startswith href ''#'' \<and> \<not> include_anchors
         then collect_links E url base_domain filter_internal filter_external include_anchors rest
         else
           (case urljoin E url href of
              Inl e \<Rightarrow> Inl e
            | Inr absolute_url \<Rightarrow>
                (case urlparse_netloc E absolute_url of
                   Inl e \<Rightarrow> Inl e
                 | Inr link_domain \<Rightarrow>
                     (let is_internal = (link_domain = base_domain);
                          is_external = (link_domain \<noteq> base_domain \<and> link_domain \<noteq> [])
                      in if filter_internal \<and> \<not> is_internal
                         then collect_links E url base_domain filter_internal filter_external
                                include_anchors rest
                         else if filter_external \<and> \<not> is_external
                         then collect_links E url base_domain filter_internal filter_external
                                include_anchors rest
                         else
                           (let link_info = \<lparr> link_url = absolute_url,
                                                link_text = get_text_strip link,
                                                link_title = tag_get link ''title'' [],
                                                link_is_internal = is_internal,
                                                link_is_external = is_external \<rparr>
                            in case collect_links E url base_domain filter_internal
                                      filter_external include_anchors rest of
                                 Inl e \<Rightarrow> Inl e
                               | Inr links \<Rightarrow> Inr (link_info # links))))))"

text \<open>The body of the \<^verbatim>\<open>try\<close> block of \<^verbatim>\<open>_extract_links\<close>.\<close>

definition links_try :: "env \<Rightarrow> string \<Rightarrow> bool \<Rightarrow> bool \<Rightarrow> bool \<Rightarrow> exn + links_response" where
  "links_try E url filter_internal filter_external include_anchors =
     (case session_get E url of
        Inl e \<Rightarrow> Inl e
      | Inr response \<Rightarrow>
          (case raise_for_status url response of
             Inl e \<Rightarrow> Inl e
           | Inr ok \<Rightarrow>
               (case text_body response of
                  Inl e \<Rightarrow> Inl e
                | Inr html_content \<Rightarrow>
                    (let soup = BeautifulSoup E html_content
                     in case urlparse_netloc E url of
                          Inl e \<Rightarrow> Inl e
                        | Inr base_domain \<Rightarrow>
                            (case collect_links E url base_domain filter_internal
                                    filter_external include_anchors (find_all_a_href soup) of
                               Inl e \<Rightarrow> Inl e
                             | Inr links \<Rightarrow>
                                 Inr \<lparr> source_url = url,
                                       total_links = length links,
                                       internal_count = length (filter link_is_internal links),
                                       external_count = length (filter link_is_external links),
                                       found_links = links \<rparr>)))))"

definition extract_links :: "env \<Rightarrow> args \<Rightarrow> exn + links_result" where
  "extract_links E a =
     (case arg_url a of
        None \<Rightarrow> Inl (KeyError ''url'')
      | Some url \<Rightarrow>
          (let filter_internal = get_or (arg_filter_internal a) False;
               filter_external = get_or (arg_filter_external a) False;
               include_anchors = get_or (arg_include_anchors a) False
           in case links_try E url filter_internal filter_external include_anchors of
                Inr result \<Rightarrow> Inr (Links result)
              | Inl e \<Rightarrow> Inr (LinksFailed \<lparr> failed_source_url = url,
                                            links_error = str_exn E e,
                                            links_status = ''failed'' \<rparr>)))"


subsection \<open>Notions used to state the properties\<close>

text \<open>\<open>sub\<close> occurs in \<open>s\<close> at index \<open>i\<close>.\<close>

definition occurs_at :: "string \<Rightarrow> string \<Rightarrow> nat \<Rightarrow> bool" where
  "occurs_at s sub i = (i + length sub \<le> length s \<and> take (length sub) (drop i s) = sub)"

text \<open>
  What the loop of \<^verbatim>\<open>_extract_links\<close> computes for a record: the two flags, from the
  host of the record's URL and the host of the page.
\<close>

definition classified :: "env \<Rightarrow> string \<Rightarrow> link_info \<Rightarrow> bool" where
  "classified E base_domain l =
     (case urlparse_netloc E (link_url l) of
        Inl e \<Rightarrow> False
      | Inr link_domain \<Rightarrow>
          link_is_internal l = (link_domain = base_domain)
        \<and> link_is_external l = (link_domain \<noteq> base_domain \<and> link_domain \<noteq> []))"

subsection \<open>An example world\<close>

text \<open>
  A small world on which the properties are tried: \<^verbatim>\<open>str.lower\<close> on ASCII, a page
  \<^verbatim>\<open>https://a.com/p\<close> whose body is the document of the specification's example, a
  page of four links (a relative one, one to another host, a fragment and a
  \<^verbatim>\<open>mailto:\<close> link, which has no host), a page of two \<^verbatim>\<open>meta\<close> tags, a page that
  answers 404, one that answers 304, a host that cannot be reached, and the trees that
  the parser builds for the documents.
\<close>

definition ascii_lower :: "string \<Rightarrow> string" where
  "ascii_lower s =
     map (\<lambda>c. case map_of (zip ''ABCDEFGHIJKLMNOPQRSTUVWXYZ''
                                  ''abcdefghijklmnopqrstuvwxyz'') c of
                 Some l \<Rightarrow> l
               | None \<Rightarrow> c) s"

definition hello_html :: string where
  "hello_html = ''<html><body><script>x</script><p>Hello  World</p></body></html>''"

definition hello_soup :: node where
  "hello_soup =
     Tag ''[document]'' []
       [Tag ''html'' []
         [Tag ''body'' []
           [Tag ''script'' [] [NavigableString ''x''],
            Tag ''p'' [] [NavigableString ''Hello  World'']]]]"

definition links_html :: string where
  "links_html = ''<a href=\"/x\">X</a><a href=\"https://b.com/y\">Y</a><a href=\"#frag\">F</a><a href=\"mailto:m@b.com\">M</a>''"

definition links_soup :: node where
  "links_soup =
     Tag ''[document]'' []
       [Tag ''a'' [(''href'', ''/x'')] [NavigableString ''X''],
        Tag ''a'' [(''href'', ''https://b.com/y'')] [NavigableString ''Y''],
        Tag ''a'' [(''href'', ''#frag'')] [NavigableString ''F''],
        Tag ''a'' [(''href'', ''mailto:m@b.com'')] [NavigableString ''M'']]"

definition meta_html :: string where
  "meta_html = ''<meta name=\"Description\" content=\"first\"><meta name=\"description\" content=\"second\">''"

definition meta_soup :: node where
  "meta_soup =
     Tag ''[document]'' []
       [Tag ''meta'' [(''name'', ''Description''), (''content'', ''first'')] [],
        Tag ''meta'' [(''name'', ''description''), (''content'', ''second'')] []]"

definition example_parse :: "string \<Rightarrow> node" where
  "example_parse html =
     (if html = hello_html then hello_soup
      else if html = links_html then links_soup
      else if html = meta_html then meta_soup
      else Tag ''[document]'' [] [NavigableString html])"

definition example_get :: "string \<Rightarrow> exn + response" where
  "example_get u =
     (if u = ''https://a.com/missing''
      then Inr \<lparr> status = 404, reason = ''Not Found'', header_content_type = None,
                 text_body = Inr ''gone'' \<rparr>
      else if u = ''https://a.com/cached''
      then Inr \<lparr> status = 304, reason = ''Not Modified'', header_content_type = None,
                 text_body = Inr [] \<rparr>
      else if u = ''https://down.example/''
      then Inl (OtherException ''Cannot connect to host down.example:443'')
      else if u = ''https://a.com/links''
      then Inr \<lparr> status = 200, reason = ''OK'', header_content_type = Some ''text/html'',
                 text_body = Inr links_html \<rparr>
      else if u = ''https://a.com/meta''
      then Inr \<lparr> status = 200, reason = ''OK'', header_content_type = Some ''text/html'',
                 text_body = Inr meta_html \<rparr>
      else Inr \<lparr> status = 200, reason = ''OK'', header_content_type = Some ''text/html'',
                 text_body = Inr hello_html \<rparr>)"

definition example_urljoin :: "string \<Rightarrow> string \<Rightarrow> exn + string" where
  "example_urljoin base href =
     (if startswith href ''https://'' \<or> startswith href ''mailto:'' then Inr href
      else if startswith href ''/'' then Inr (''https://a.com'' @ href)
      else Inr (base @ href))"

definition example_netloc :: "string \<Rightarrow> exn + string" where
  "example_netloc u =
     (if startswith u ''https://a.com'' then Inr ''a.com''
      else if startswith u ''https://b.com'' then Inr ''b.com''
      else Inr [])"

definition example_env :: env where
  "example_env =
     \<lparr> session_get = example_get,
       trafilatura_extract = (\<lambda>html. Inr None),
       BeautifulSoup = example_parse,
       urljoin = example_urljoin,
       urlparse_netloc = example_netloc,
       lower = ascii_lower,
       repr = (\<lambda>s. [CHR 0x27] @ s @ [CHR 0x27]) \<rparr>"

text \<open>A case-insensitive search of the example page for \<^verbatim>\<open>WORLD\<close>.\<close>

definition search_example :: args where
  "search_example = no_args\<lparr> arg_url := Some ''https://a.com/p'',
                              arg_search_terms := Some [''WORLD''],
                              arg_context_chars := Some 4 \<rparr>"


text \<open>The links of the example page, unfiltered and with both filters set.\<close>

definition links_example :: args where
  "links_example = no_args\<lparr> arg_url := Some ''https://a.com/links'' \<rparr>"

definition links_example_filtered :: args where
  "links_example_filtered = no_args\<lparr> arg_url := Some ''https://a.com/links'',
                                       arg_filter_internal := Some True,
                                       arg_filter_external := Some True \<rparr>"



definition missing_example :: args where
  "missing_example = no_args\<lparr> arg_url := Some ''https://a.com/missing'' \<rparr>"

definition down_example :: args where
  "down_example = no_args\<lparr> arg_url := Some ''https://down.example/'' \<rparr>"


text \<open>
  The field that the chain of \<^verbatim>\<open>if\<close>/\<^verbatim>\<open>elif\<close> in \<^verbatim>\<open>_extract_metadata\<close> selects for a
  \<^verbatim>\<open>meta\<close> tag, if any: the tag is an occurrence of that field.
\<close>

definition meta_key :: "env \<Rightarrow> node \<Rightarrow> string option" where
  "meta_key E meta =
     (let name = lower E (tag_get meta ''name'' []);
          property_name = lower E (tag_get meta ''property'' [])
      in if name = ''description'' then Some ''description''
         else if name = ''keywords'' then Some ''keywords''
         else if name = ''author'' then Some ''author''
         else if property_name = ''og:title'' then Some ''og_title''
         else if property_name = ''og:description'' then Some ''og_description''
         else if property_name = ''og:image'' then Some ''og_image''
         else if property_name = ''og:url'' then Some ''og_url''
         else if property_name = ''og:type'' then Some ''og_type''
         else if name = ''twitter:card'' then Some ''twitter_card''
         else if name = ''twitter:title'' then Some ''twitter_title''
         else if name = ''twitter:description'' then Some ''twitter_description''
         else if name = ''twitter:image'' then Some ''twitter_image''
         else None)"

text \<open>The occurrences of a field among the \<^verbatim>\<open>meta\<close> tags of a document, in document order.\<close>

definition occurrences :: "env \<Rightarrow> string \<Rightarrow> string \<Rightarrow> node list" where
  "occurrences E html_content k =
     filter (\<lambda>meta. meta_key E meta = Some k) (find_all (BeautifulSoup E html_content) ''meta'')"

definition recognised_fields :: "string list" where
  "recognised_fields =
     [''description'', ''keywords'', ''author'', ''og_title'', ''og_description'',
      ''og_image'', ''og_url'', ''og_type'', ''twitter_card'', ''twitter_title'',
      ''twitter_description'', ''twitter_image'']"

text \<open>The table of the recognised names and properties, with the field of each.\<close>

definition name_fields :: "(string \<times> string) list" where
  "name_fields =
     [(''description'', ''description''), (''keywords'', ''keywords''), (''author'', ''author''),
      (''twitter:card'', ''twitter_card''), (''twitter:title'', ''twitter_title''),
      (''twitter:description'', ''twitter_description''),
      (''twitter:image'', ''twitter_image'')]"

definition property_fields :: "(string \<times> string) list" where
  "property_fields =
     [(''og:title'', ''og_title''), (''og:description'', ''og_description''),
      (''og:image'', ''og_image''), (''og:url'', ''og_url''), (''og:type'', ''og_type'')]"

text \<open>Two \<^verbatim>\<open>meta\<close> tags with upper-case letters in the name and in the property.\<close>

definition description_tag :: node where
  "description_tag = Tag ''meta'' [(''name'', ''Description''), (''content'', ''first'')] []"

definition og_title_tag :: node where
  "og_title_tag = Tag ''meta'' [(''property'', ''OG:Title''), (''content'', ''t'')] []"


section \<open>Properties\<close>

subsection \<open>Evaluating the example world\<close>

lemma example_env_fields:
  "session_get example_env = example_get"
  "trafilatura_extract example_env = (\<lambda>html. Inr None)"
  "BeautifulSoup example_env = example_parse"
  "urljoin example_env = example_urljoin"
  "urlparse_netloc example_env = example_netloc"
  "lower example_env = ascii_lower"
  "repr example_env = (\<lambda>s. [CHR 0x27] @ s @ [CHR 0x27])"
  by (simp_all add: example_env_def)

lemmas string_defs =
  strip_def isspace_def startswith_def is_linebreak_def splitlines_def str_split_def
  py_slice_def slice_index_def

lemma hello_fallback:
  "fallback_content example_env hello_html = ''Hello\<newline>World''"
  by (simp add: fallback_content_def example_env_fields example_parse_def hello_soup_def
                string_defs get_text_def)

lemma hello_fetch:
  "fetch_webpage example_env (no_args\<lparr> arg_url := Some ''https://a.com/p'',
                                         arg_extract_content := Some True,
                                         arg_include_metadata := Some False \<rparr>)
     = Inr (Fetched \<lparr> page_url = ''https://a.com/p'', status_code = 200,
                       content_type = ''text/html'', content_length = length hello_html,
                       page_metadata = None, page_content = Some ''Hello\<newline>World'',
                       page_raw_html = None \<rparr>)"
  by (simp add: fetch_webpage_def fetch_try_def raise_for_status_def get_or_def no_args_def
                example_env_fields example_get_def hello_fallback)

lemma hello_matches:
  "find_matches example_env ''Hello\<newline>World'' [''WORLD''] False 4
     = [\<lparr>match_term = ''world'', match_position = 6, match_context = ''o\<newline>World'',
         match_context_start = 4, match_context_end = 11\<rparr>]"
  by (simp add: find_matches_def example_env_fields ascii_lower_def scan_term.simps
                str_find.simps new_match_def py_slice_def slice_index_def)

lemma search_example_result:
  "search_webpage_content example_env search_example =
     Inr (Searched \<lparr> search_url = ''https://a.com/p'', echoed_search_terms = [''WORLD''],
                     total_matches = 1,
                     found_matches = [\<lparr>match_term = ''world'', match_position = 6,
                                       match_context = ''o\<newline>World'', match_context_start = 4,
                                       match_context_end = 11\<rparr>],
                     search_content_length = 11 \<rparr>)"
  by (simp add: search_webpage_content_def search_example_def hello_fetch [unfolded no_args_def, simplified]
                hello_matches get_or_def no_args_def)


lemma links_example_result:
  "extract_links example_env links_example =
     Inr (Links \<lparr> source_url = ''https://a.com/links'', total_links = 3,
                  internal_count = 1, external_count = 1,
                  found_links =
                    [\<lparr> link_url = ''https://a.com/x'', link_text = ''X'', link_title = [],
                       link_is_internal = True, link_is_external = False \<rparr>,
                     \<lparr> link_url = ''https://b.com/y'', link_text = ''Y'', link_title = [],
                       link_is_internal = False, link_is_external = True \<rparr>,
                     \<lparr> link_url = ''mailto:m@b.com'', link_text = ''M'', link_title = [],
                       link_is_internal = False, link_is_external = False \<rparr>] \<rparr>)"
  by (simp add: extract_links_def links_try_def links_example_def no_args_def get_or_def
                raise_for_status_def example_env_fields example_get_def example_parse_def
                links_html_def links_soup_def hello_html_def meta_html_def
                find_all_a_href_def find_all_def
                example_urljoin_def example_netloc_def startswith_def get_text_strip_def
                strip_def isspace_def)

lemma links_example_filtered_result:
  "extract_links example_env links_example_filtered =
     Inr (Links \<lparr> source_url = ''https://a.com/links'', total_links = 0,
                  internal_count = 0, external_count = 0, found_links = [] \<rparr>)"
  by (simp add: extract_links_def links_try_def links_example_filtered_def no_args_def get_or_def
                raise_for_status_def example_env_fields example_get_def example_parse_def
                links_html_def links_soup_def hello_html_def meta_html_def
                find_all_a_href_def find_all_def
                example_urljoin_def example_netloc_def startswith_def get_text_strip_def
                strip_def isspace_def)


subsection \<open>The search scan\<close>

lemma str_find_None:
  "str_find s sub start = None \<Longrightarrow> filter (occurs_at s sub) [start..<Suc (length s)] = []"
proof (induction s sub start rule: str_find.induct)
  case (1 s sub start)
  show ?case
  proof (cases "length s < start + length sub")
    case True
    then have "\<not> occurs_at s sub i" if "start \<le> i" for i
      using that by (simp add: occurs_at_def)
    then show ?thesis by (simp add: filter_empty_conv del: upt_Suc)
  next
    case False
    note inside = this
    with "1.prems" have miss: "take (length sub) (drop start s) \<noteq> sub"
      by (auto simp: str_find.simps [of s sub start] split: if_splits)
    with inside "1.prems" have "str_find s sub (Suc start) = None"
      by (simp add: str_find.simps [of s sub start])
    with "1.IH" [OF inside miss]
    have "filter (occurs_at s sub) [Suc start..<Suc (length s)] = []" .
    moreover have "\<not> occurs_at s sub start" using miss by (simp add: occurs_at_def)
    moreover have "start < Suc (length s)" using inside by simp
    ultimately show ?thesis by (simp add: upt_conv_Cons del: upt_Suc)
  qed
qed

lemma str_find_Some:
  "str_find s sub start = Some pos \<Longrightarrow>
     filter (occurs_at s sub) [start..<Suc (length s)]
       = pos # filter (occurs_at s sub) [Suc pos..<Suc (length s)]"
proof (induction s sub start rule: str_find.induct)
  case (1 s sub start)
  show ?case
  proof (cases "length s < start + length sub")
    case True
    with "1.prems" show ?thesis by (simp add: str_find.simps [of s sub start])
  next
    case False
    note inside = this
    then have lt: "start < Suc (length s)" by simp
    show ?thesis
    proof (cases "take (length sub) (drop start s) = sub")
      case True
      with inside "1.prems" have "pos = start" by (simp add: str_find.simps [of s sub start])
      moreover have "occurs_at s sub start" using True inside by (simp add: occurs_at_def)
      ultimately show ?thesis using lt by (simp add: upt_conv_Cons del: upt_Suc)
    next
      case False
      with inside "1.prems" have "str_find s sub (Suc start) = Some pos"
        by (simp add: str_find.simps [of s sub start])
      with "1.IH" [OF inside False]
      have "filter (occurs_at s sub) [Suc start..<Suc (length s)]
              = pos # filter (occurs_at s sub) [Suc pos..<Suc (length s)]" .
      moreover have "\<not> occurs_at s sub start" using False by (simp add: occurs_at_def)
      ultimately show ?thesis using lt by (simp add: upt_conv_Cons del: upt_Suc)
    qed
  qed
qed

lemma match_position_new_match:
  "match_position (new_match content context_chars t pos) = int pos"
  by (simp add: new_match_def Let_def)

lemma scan_term_positions:
  "map match_position (scan_term content search_content context_chars t start)
     = map int (filter (occurs_at search_content t) [start..<Suc (length search_content)])"
proof (induction content search_content context_chars t start rule: scan_term.induct)
  case (1 content search_content context_chars t start)
  show ?case
  proof (cases "str_find search_content t start")
    case None
    then show ?thesis
      by (simp add: str_find_None scan_term.simps [of content search_content context_chars t start]
               del: upt_Suc)
  next
    case (Some pos)
    with "1.IH" [OF Some] show ?thesis
      by (simp add: str_find_Some match_position_new_match
                    scan_term.simps [of content search_content context_chars t start]
               del: upt_Suc)
  qed
qed

lemma find_matches_single:
  "find_matches E content [t] True context_chars = scan_term content content context_chars t 0"
  "find_matches E content [t] False context_chars
     = scan_term content (lower E content) context_chars (lower E t) 0"
  by (simp_all add: find_matches_def)


lemma scan_term_elems:
  "m \<in> set (scan_term content search_content context_chars t start) \<Longrightarrow>
     \<exists>pos. m = new_match content context_chars t pos"
proof (induction content search_content context_chars t start rule: scan_term.induct)
  case (1 content search_content context_chars t start)
  show ?case
  proof (cases "str_find search_content t start")
    case None
    with "1.prems" show ?thesis
      by (simp add: scan_term.simps [of content search_content context_chars t start])
  next
    case (Some pos)
    with "1.prems" have "m = new_match content context_chars t pos
        \<or> m \<in> set (scan_term content search_content context_chars t (pos + 1))"
      by (simp add: scan_term.simps [of content search_content context_chars t start])
    with "1.IH" [OF Some] show ?thesis by blast
  qed
qed

lemma find_matches_elems:
  assumes "m \<in> set (find_matches E content search_terms case_sensitive context_chars)"
  shows "\<exists>t pos. m = new_match content context_chars t pos
           \<and> t \<in> set (if case_sensitive then search_terms else map (lower E) search_terms)"
proof (cases case_sensitive)
  case True
  with assms obtain t where "t \<in> set search_terms"
      and "m \<in> set (scan_term content content context_chars t 0)"
    by (auto simp: find_matches_def)
  with True show ?thesis by (auto dest!: scan_term_elems)
next
  case False
  with assms obtain t where "t \<in> set search_terms"
      and "m \<in> set (scan_term content (lower E content) context_chars (lower E t) 0)"
    by (auto simp: find_matches_def)
  with False show ?thesis by (auto dest!: scan_term_elems)
qed

lemma py_slice_sublist: "sublist (py_slice s a b) s"
proof -
  have "sublist (take n (drop i s)) s" for n i
    by (meson sublist_drop sublist_order.order_trans sublist_take)
  then show ?thesis by (simp add: py_slice_def Let_def)
qed

lemma py_slice_inside:
  assumes "0 \<le> a" and "0 \<le> b" and "b \<le> int (length s)"
  shows "py_slice s a b = take (nat (b - a)) (drop (nat a) s)"
proof (cases "a \<le> int (length s)")
  case True
  with assms have "slice_index (length s) a = nat a" "slice_index (length s) b = nat b"
    by (auto simp: slice_index_def min_def)
  moreover have "nat b - nat a = nat (b - a)" using assms by linarith
  ultimately show ?thesis by (simp add: py_slice_def Let_def)
next
  case False
  then have "length s \<le> nat a" by linarith
  moreover from False assms have "slice_index (length s) a = length s"
    by (simp add: slice_index_def min_def)
  ultimately show ?thesis by (simp add: py_slice_def Let_def)
qed

lemma new_match_window:
  fixes content :: string
  defines "n \<equiv> int (length content)"
  assumes "m = new_match content context_chars t pos"
  shows "match_context_start m = max 0 (match_position m - context_chars div 2)"
    and "match_context_end m
           = min n (match_position m + int (length (match_term m)) + context_chars div 2)"
    and "match_context m = py_slice content (match_context_start m) (match_context_end m)"
  using assms by (simp_all add: new_match_def Let_def)


lemma search_webpage_content_Searched:
  assumes "search_webpage_content E a = Inr (Searched r)"
  shows "\<exists>search_terms content.
           arg_search_terms a = Some search_terms
         \<and> echoed_search_terms r = search_terms
         \<and> search_content_length r = length content
         \<and> total_matches r = length (found_matches r)
         \<and> found_matches r = find_matches E content search_terms
                                (get_or (arg_case_sensitive a) False)
                                (get_or (arg_context_chars a) 200)"
  using assms
  by (auto simp: search_webpage_content_def Let_def
           split: option.splits sum.splits result_dict.splits)

lemma match_term_new_match:
  "match_term (new_match content context_chars t pos) = t"
  by (simp add: new_match_def Let_def)


subsection \<open>Link extraction\<close>

lemma collect_links_classified:
  "collect_links E url base_domain fi fe ia as = Inr ls \<Longrightarrow>
     list_all (\<lambda>l. classified E base_domain l
                  \<and> (fi \<longrightarrow> link_is_internal l) \<and> (fe \<longrightarrow> link_is_external l)) ls"
proof (induction as arbitrary: ls)
  case Nil
  then show ?case by simp
next
  case (Cons link rest)
  show ?case
  proof (cases "startswith (tag_get link ''href'' []) ''#'' \<and> \<not> ia")
    case True
    with Cons show ?thesis by (simp add: Let_def)
  next
    case False
    with Cons.prems obtain absolute_url link_domain where
        j: "urljoin E url (tag_get link ''href'' []) = Inr absolute_url"
      and d: "urlparse_netloc E absolute_url = Inr link_domain"
      by (auto simp: Let_def split: sum.splits)
    show ?thesis
    proof (cases "(fi \<and> link_domain \<noteq> base_domain)
                  \<or> (fe \<and> \<not> (link_domain \<noteq> base_domain \<and> link_domain \<noteq> []))")
      case True
      with False j d Cons.prems
      have "collect_links E url base_domain fi fe ia rest = Inr ls"
        by (auto simp: Let_def split: if_splits)
      then show ?thesis by (rule Cons.IH)
    next
      case False
      note kept = this
      with \<open>\<not> (startswith (tag_get link ''href'' []) ''#'' \<and> \<not> ia)\<close> j d Cons.prems
      obtain ls' where rest: "collect_links E url base_domain fi fe ia rest = Inr ls'"
        and ls: "ls = \<lparr> link_url = absolute_url, link_text = get_text_strip link,
                        link_title = tag_get link ''title'' [],
                        link_is_internal = (link_domain = base_domain),
                        link_is_external = (link_domain \<noteq> base_domain \<and> link_domain \<noteq> []) \<rparr>
                     # ls'"
        by (auto simp: Let_def split: if_splits sum.splits)
      from Cons.IH [OF rest] kept d show ?thesis
        unfolding ls by (auto simp: classified_def)
    qed
  qed
qed

lemma extract_links_Links:
  assumes "extract_links E a = Inr (Links r)"
  shows "\<exists>url base_domain.
           arg_url a = Some url \<and> source_url r = url
         \<and> urlparse_netloc E url = Inr base_domain
         \<and> total_links r = length (found_links r)
         \<and> internal_count r = length (filter link_is_internal (found_links r))
         \<and> external_count r = length (filter link_is_external (found_links r))
         \<and> list_all (\<lambda>l. classified E base_domain l
                  \<and> (get_or (arg_filter_internal a) False \<longrightarrow> link_is_internal l)
                  \<and> (get_or (arg_filter_external a) False \<longrightarrow> link_is_external l))
               (found_links r)"
proof -
  from assms obtain url where url: "arg_url a = Some url"
    by (auto simp: extract_links_def split: option.splits)
  with assms have body: "links_try E url (get_or (arg_filter_internal a) False)
                          (get_or (arg_filter_external a) False)
                          (get_or (arg_include_anchors a) False) = Inr r"
    by (auto simp: extract_links_def Let_def split: sum.splits)
  from body obtain response html_content base_domain ls where
      "urlparse_netloc E url = Inr base_domain"
    and c: "collect_links E url base_domain (get_or (arg_filter_internal a) False)
              (get_or (arg_filter_external a) False) (get_or (arg_include_anchors a) False)
              (find_all_a_href (BeautifulSoup E html_content)) = Inr ls"
    and r: "r = \<lparr> source_url = url, total_links = length ls,
                  internal_count = length (filter link_is_internal ls),
                  external_count = length (filter link_is_external ls),
                  found_links = ls \<rparr>"
    by (auto simp: links_try_def Let_def split: sum.splits)
  with url collect_links_classified [OF c] show ?thesis by simp
qed


lemma exclusive_counts:
  "list_all (\<lambda>x. \<not> (P x \<and> Q x)) xs \<Longrightarrow>
     length (filter P xs) + length (filter Q xs) \<le> length xs"
  by (induction xs) auto

lemma classified_exclusive:
  "classified E base_domain l \<Longrightarrow> \<not> (link_is_internal l \<and> link_is_external l)"
  by (auto simp: classified_def split: sum.splits)


subsection \<open>The scan over a list of terms\<close>

lemma scan_term_hits:
  "map (\<lambda>m. (match_term m, match_position m))
       (scan_term content search_content context_chars t start)
     = map (\<lambda>i. (t, int i))
           (filter (occurs_at search_content t) [start..<Suc (length search_content)])"
proof (induction content search_content context_chars t start rule: scan_term.induct)
  case (1 content search_content context_chars t start)
  show ?case
  proof (cases "str_find search_content t start")
    case None
    then show ?thesis
      by (simp add: str_find_None scan_term.simps [of content search_content context_chars t start]
               del: upt_Suc)
  next
    case (Some pos)
    with "1.IH" [OF Some] show ?thesis
      by (simp add: str_find_Some match_position_new_match match_term_new_match
                    scan_term.simps [of content search_content context_chars t start]
               del: upt_Suc)
  qed
qed

lemma find_matches_hits:
  "map (\<lambda>m. (match_term m, match_position m))
       (find_matches E content search_terms True context_chars)
     = concat (map (\<lambda>t. map (\<lambda>i. (t, int i))
                              (filter (occurs_at content t) [0..<Suc (length content)]))
                   search_terms)"
  "map (\<lambda>m. (match_term m, match_position m))
       (find_matches E content search_terms False context_chars)
     = concat (map (\<lambda>t. map (\<lambda>i. (lower E t, int i))
                              (filter (occurs_at (lower E content) (lower E t))
                                      [0..<Suc (length (lower E content))]))
                   search_terms)"
  by (simp_all add: find_matches_def map_concat comp_def scan_term_hits del: upt_Suc)


subsection \<open>The batch\<close>







lemma decimal_404: "decimal 404 = ''404''"
  by (simp add: decimal.simps char_of_def bit_Suc_0_iff)







subsection \<open>The outcome of a fetch\<close>



lemma missing_example_result:
  "fetch_webpage example_env missing_example
     = Inr (Failed \<lparr> failed_url = ''https://a.com/missing'',
                      error = ''404, message='' @ [CHR 0x27] @ ''Not Found'' @ [CHR 0x27]
                              @ '', url='' @ [CHR 0x27] @ ''https://a.com/missing''
                              @ [CHR 0x27],
                      failed_status = ''failed'' \<rparr>)"
  by (simp add: fetch_webpage_def fetch_try_def raise_for_status_def get_or_def no_args_def
                missing_example_def example_env_fields example_get_def decimal_404)

lemma down_example_result:
  "fetch_webpage example_env down_example
     = Inr (Failed \<lparr> failed_url = ''https://down.example/'',
                      error = ''Cannot connect to host down.example:443'',
                      failed_status = ''failed'' \<rparr>)"
  by (simp add: fetch_webpage_def fetch_try_def get_or_def no_args_def
                down_example_def example_env_fields example_get_def)






subsection \<open>The metadata\<close>

lemma meta_step_key:
  "meta_step E metadata meta =
     (case meta_key E meta of
        None \<Rightarrow> metadata
      | Some k \<Rightarrow> metadata(k \<mapsto> tag_get meta ''content'' []))"
  by (simp add: meta_step_def meta_key_def Let_def)

lemma meta_key_recognised: "meta_key E meta = Some k \<Longrightarrow> k \<in> set recognised_fields"
  by (auto simp: meta_key_def Let_def recognised_fields_def split: if_splits)

lemma foldl_meta_step:
  "foldl (meta_step E) metadata metas k =
     (if filter (\<lambda>meta. meta_key E meta = Some k) metas = [] then metadata k
      else Some (tag_get (last (filter (\<lambda>meta. meta_key E meta = Some k) metas)) ''content'' []))"
proof (induction metas rule: rev_induct)
  case Nil
  show ?case by simp
next
  case (snoc meta metas)
  show ?case
  proof (cases "meta_key E meta")
    case None
    with snoc show ?thesis by (simp add: meta_step_key)
  next
    case (Some k')
    with snoc show ?thesis by (cases "k' = k") (simp_all add: meta_step_key)
  qed
qed

lemma extract_metadata_lookup:
  "extract_metadata E html_content u k =
     (if k = ''language'' \<and> find_first (find_all (BeautifulSoup E html_content) ''html'') \<noteq> None
      then Some (tag_get (the (find_first (find_all (BeautifulSoup E html_content) ''html'')))
                         ''lang'' [])
      else if k = ''canonical_url'' \<and> find_link_canonical (BeautifulSoup E html_content) \<noteq> None
      then Some (tag_get (the (find_link_canonical (BeautifulSoup E html_content))) ''href'' [])
      else if occurrences E html_content k \<noteq> []
      then Some (tag_get (last (occurrences E html_content k)) ''content'' [])
      else if k = ''title''
      then Some (case find_first (find_all (BeautifulSoup E html_content) ''title'') of
                   Some t \<Rightarrow> get_text_strip t | None \<Rightarrow> [])
      else None)"
  by (simp add: extract_metadata_def Let_def foldl_meta_step occurrences_def
           split: option.splits)

lemma occurrences_recognised:
  "occurrences E html_content k \<noteq> [] \<Longrightarrow> k \<in> set recognised_fields"
proof -
  assume "occurrences E html_content k \<noteq> []"
  then obtain meta where "meta_key E meta = Some k"
    by (auto simp: occurrences_def filter_empty_conv)
  then show ?thesis by (rule meta_key_recognised)
qed

lemma recognised_fields_other:
  "k \<in> set recognised_fields \<Longrightarrow> k \<noteq> ''title'' \<and> k \<noteq> ''canonical_url'' \<and> k \<noteq> ''language''"
  by (auto simp: recognised_fields_def)

lemma tag_get_absent: "\<not> has_attr t key \<Longrightarrow> tag_get t key [] = []"
  by (cases t) simp_all

lemma meta_key_name:
  "\<forall>(n, f) \<in> set name_fields. \<forall>meta.
      lower E (tag_get meta ''name'' []) = n
      \<and> lower E (tag_get meta ''property'' []) \<notin> fst ` set property_fields
      \<longrightarrow> meta_key E meta = Some f"
  by (simp add: name_fields_def property_fields_def meta_key_def Let_def)

lemma meta_key_property:
  "\<forall>(p, f) \<in> set property_fields. \<forall>meta.
      lower E (tag_get meta ''property'' []) = p
      \<and> lower E (tag_get meta ''name'' []) \<notin> fst ` set name_fields
      \<longrightarrow> meta_key E meta = Some f"
  by (simp add: name_fields_def property_fields_def meta_key_def Let_def)

lemma ascii_lower_examples:
  "ascii_lower [] = []"
  "ascii_lower ''Description'' = ''description''"
  "ascii_lower ''description'' = ''description''"
  "ascii_lower ''OG:Title'' = ''og:title''"
  by (simp_all add: ascii_lower_def)

lemma meta_example_tags:
  "find_all (BeautifulSoup example_env meta_html) ''meta''
     = [Tag ''meta'' [(''name'', ''Description''), (''content'', ''first'')] [],
        Tag ''meta'' [(''name'', ''description''), (''content'', ''second'')] []]"
  "find_all (BeautifulSoup example_env meta_html) ''title'' = []"
  "find_all (BeautifulSoup example_env meta_html) ''html'' = []"
  "find_all (BeautifulSoup example_env meta_html) ''link'' = []"
  by (simp_all add: example_env_fields example_parse_def meta_html_def hello_html_def
                    links_html_def meta_soup_def find_all_def)

lemma meta_example_keys:
  "meta_key example_env (Tag ''meta'' [(''name'', ''Description''), (''content'', ''first'')] [])
     = Some ''description''"
  "meta_key example_env (Tag ''meta'' [(''name'', ''description''), (''content'', ''second'')] [])
     = Some ''description''"
  by (simp_all add: meta_key_def example_env_fields ascii_lower_examples)

lemma meta_example_occurrences:
  "occurrences example_env meta_html k =
     (if k = ''description''
      then [Tag ''meta'' [(''name'', ''Description''), (''content'', ''first'')] [],
            Tag ''meta'' [(''name'', ''description''), (''content'', ''second'')] []]
      else [])"
  by (auto simp: occurrences_def meta_example_tags meta_example_keys)

lemma meta_example_description:
  "extract_metadata example_env meta_html ''https://a.com/meta'' ''description'' = Some ''second''"
  by (simp add: extract_metadata_lookup meta_example_occurrences)

lemma meta_example_title:
  "extract_metadata example_env meta_html ''https://a.com/meta'' ''title'' = Some []"
  by (simp add: extract_metadata_lookup meta_example_occurrences meta_example_tags
                find_first_def find_link_canonical_def)

lemma hello_example_tags:
  "find_first (find_all (BeautifulSoup example_env hello_html) ''html'')
     = Some (Tag ''html'' []
         [Tag ''body'' []
           [Tag ''script'' [] [NavigableString ''x''],
            Tag ''p'' [] [NavigableString ''Hello  World'']]])"
  "find_first (find_all (BeautifulSoup example_env hello_html) ''title'') = None"
  by (simp_all add: example_env_fields example_parse_def hello_soup_def find_all_def
                    find_first_def)

lemma hello_example_language:
  "extract_metadata example_env hello_html ''https://a.com/p'' ''language'' = Some []"
  by (simp add: extract_metadata_lookup hello_example_tags)

lemma meta_example_tag_keys:
  "meta_key example_env description_tag = Some ''description''"
  "meta_key example_env og_title_tag = Some ''og_title''"
  by (simp_all add: meta_key_def description_tag_def og_title_tag_def example_env_fields
                    ascii_lower_examples)

lemma recognised_lookup:
  assumes "k \<in> set recognised_fields"
  shows "extract_metadata E html_content u k =
           (if occurrences E html_content k = [] then None
            else Some (tag_get (last (occurrences E html_content k)) ''content'' []))"
  using recognised_fields_other [OF assms] by (simp add: extract_metadata_lookup)

section \<open>The claims\<close>

text \<open>
  C4. For every content string and every list of terms, the scan of
  \<^verbatim>\<open>_search_webpage_content\<close> reports every occurrence of every term: for each term
  in turn it starts again at 0 and resumes one position past the start of the previous
  hit, so the matches are, term after term in the order of the list, exactly the
  indices at which that term occurs in the scanned content, in increasing order,
  overlapping occurrences included, each labelled with the term scanned for. Searching
  \<^verbatim>\<open>"aaa"\<close> for \<^verbatim>\<open>"aa"\<close> with \<^verbatim>\<open>case_sensitive=true\<close> gives exactly two matches, at
  offsets 0 and 1, also when another term that does not occur comes before it.
\<close>

theorem search_reports_every_occurrence:
  "map (\<lambda>m. (match_term m, match_position m))
       (find_matches E content search_terms True context_chars)
     = concat (map (\<lambda>t. map (\<lambda>i. (t, int i))
                              (filter (occurs_at content t) [0..<Suc (length content)]))
                   search_terms)
   \<and> map (\<lambda>m. (match_term m, match_position m))
       (find_matches E content search_terms False context_chars)
     = concat (map (\<lambda>t. map (\<lambda>i. (lower E t, int i))
                              (filter (occurs_at (lower E content) (lower E t))
                                      [0..<Suc (length (lower E content))]))
                   search_terms)
   \<and> map match_position (find_matches E ''aaa'' [''aa''] True context_chars) = [0, 1]
   \<and> map (\<lambda>m. (match_term m, match_position m))
       (find_matches E ''aaa'' [''x'', ''aa''] True context_chars) = [(''aa'', 0), (''aa'', 1)]"
proof -
  have positions: "map match_position ms = map snd (map (\<lambda>m. (match_term m, match_position m)) ms)"
    for ms :: "search_match list"
    by (simp add: comp_def)
  have "map (\<lambda>m. (match_term m, match_position m))
            (find_matches E ''aaa'' [''aa''] True context_chars) = [(''aa'', 0), (''aa'', 1)]"
    by (simp add: find_matches_hits occurs_at_def upt_conv_Cons del: upt_Suc)
  then have one: "map match_position (find_matches E ''aaa'' [''aa''] True context_chars) = [0, 1]"
    by (simp only: positions) simp
  have two: "map (\<lambda>m. (match_term m, match_position m))
       (find_matches E ''aaa'' [''x'', ''aa''] True context_chars) = [(''aa'', 0), (''aa'', 1)]"
    by (simp add: find_matches_hits occurs_at_def upt_conv_Cons del: upt_Suc)
  from one two show ?thesis
    by (simp only: find_matches_hits simp_thms)
qed


text \<open>
  C5. For every search match at position \<open>pos\<close> of a term of length \<open>L\<close> with the context
  budget \<open>context_chars\<close>, the context returned is the slice of the original content
  (not of the lower-cased copy that is scanned) from \<open>max(0, pos - context_chars div 2)\<close>
  to \<open>min(len(content), pos + L + context_chars div 2)\<close>: it is a piece of the original
  content, so the casing of the source is kept, and the window lies within the bounds of
  the content. For a budget that is not negative the slice is the plain substring
  between the two indices.
\<close>

theorem context_window_of_original_content:
  assumes "m \<in> set (find_matches E content search_terms case_sensitive context_chars)"
  shows "match_context_start m = max 0 (match_position m - context_chars div 2)
       \<and> match_context_end m
           = min (int (length content))
                 (match_position m + int (length (match_term m)) + context_chars div 2)
       \<and> match_context m = py_slice content (match_context_start m) (match_context_end m)
       \<and> sublist (match_context m) content
       \<and> 0 \<le> match_context_start m
       \<and> match_context_end m \<le> int (length content)
       \<and> (0 \<le> context_chars \<longrightarrow>
            match_context m
              = take (nat (match_context_end m - match_context_start m))
                     (drop (nat (match_context_start m)) content))"
proof -
  from assms obtain t pos where m: "m = new_match content context_chars t pos"
    by (blast dest: find_matches_elems)
  note w = new_match_window [OF m]
  have pos: "0 \<le> match_position m" using m by (simp add: new_match_def Let_def)
  have sub: "sublist (match_context m) content"
    unfolding w(3) by (rule py_slice_sublist)
  have lo: "0 \<le> match_context_start m" unfolding w(1) by simp
  have hi: "match_context_end m \<le> int (length content)" unfolding w(2) by simp
  have inside: "match_context m
              = take (nat (match_context_end m - match_context_start m))
                     (drop (nat (match_context_start m)) content)" if "0 \<le> context_chars"
  proof -
    from that have "0 \<le> context_chars div 2" by simp
    with pos have "0 \<le> match_context_end m" unfolding w(2) by simp
    with lo hi show ?thesis unfolding w(3) by (simp add: py_slice_inside)
  qed
  from w sub lo hi inside show ?thesis by blast
qed

theorem context_window_of_original_content_witness:
  "\<lparr>match_term = ''world'', match_position = 6, match_context = ''o World'',
     match_context_start = 4, match_context_end = 11\<rparr>
     \<in> set (find_matches example_env ''Hello World'' [''WORLD''] False 4)
   \<and> sublist ''o World'' ''Hello World''
   \<and> ''o World'' = take (nat (11 - 4)) (drop (nat 4) ''Hello World'')"
proof -
  let ?m = "\<lparr>match_term = ''world'', match_position = 6, match_context = ''o World'',
     match_context_start = 4, match_context_end = 11\<rparr>"
  have h: "?m \<in> set (find_matches example_env ''Hello World'' [''WORLD''] False 4)"
    by (simp add: find_matches_def example_env_def ascii_lower_def scan_term.simps
                  str_find.simps new_match_def py_slice_def slice_index_def)
  from context_window_of_original_content [OF h] h show ?thesis by simp
qed






text \<open>
  C2, as stated, fails: in a document with two \<^verbatim>\<open>description\<close> tags, the first with the
  content \<^verbatim>\<open>first\<close> and the second with the content \<^verbatim>\<open>second\<close>, the metadata holds
  \<^verbatim>\<open>second\<close>: every occurrence overwrites the field.
\<close>

theorem last_occurrence_wins_counterexample:
  "occurrences example_env meta_html ''description''
     = [Tag ''meta'' [(''name'', ''Description''), (''content'', ''first'')] [],
        Tag ''meta'' [(''name'', ''description''), (''content'', ''second'')] []]
   \<and> tag_get (hd (occurrences example_env meta_html ''description'')) ''content'' [] = ''first''
   \<and> extract_metadata example_env meta_html ''https://a.com/meta'' ''description''
       = Some ''second''"
  by (simp add: meta_example_occurrences meta_example_description)

text \<open>
  C2, amended. For every document, a recognised field (description, keywords, author,
  the \<^verbatim>\<open>og:\<close> and the \<^verbatim>\<open>twitter:\<close> ones) holds the content of the LAST occurrence of its
  name or property in document order (last occurrence wins), and is absent when there is
  no occurrence. Names and properties are matched case-insensitively: a tag whose
  lower-cased name is in the table (and whose property is not) is an occurrence of the
  name's field, and likewise for a property.
\<close>

theorem last_occurrence_wins:
  "(\<forall>k \<in> set recognised_fields.
      extract_metadata E html_content u k =
        (if occurrences E html_content k = [] then None
         else Some (tag_get (last (occurrences E html_content k)) ''content'' [])))
   \<and> (\<forall>(n, f) \<in> set name_fields. \<forall>meta.
        lower E (tag_get meta ''name'' []) = n
        \<and> lower E (tag_get meta ''property'' []) \<notin> fst ` set property_fields
        \<longrightarrow> meta_key E meta = Some f)
   \<and> (\<forall>(p, f) \<in> set property_fields. \<forall>meta.
        lower E (tag_get meta ''property'' []) = p
        \<and> lower E (tag_get meta ''name'' []) \<notin> fst ` set name_fields
        \<longrightarrow> meta_key E meta = Some f)"
  using recognised_lookup meta_key_name meta_key_property by blast

theorem last_occurrence_wins_witness:
  "''description'' \<in> set recognised_fields
   \<and> occurrences example_env meta_html ''description''
     = [Tag ''meta'' [(''name'', ''Description''), (''content'', ''first'')] [],
        Tag ''meta'' [(''name'', ''description''), (''content'', ''second'')] []]
   \<and> extract_metadata example_env meta_html ''https://a.com/meta'' ''description''
       = Some ''second''
   \<and> (''description'', ''description'') \<in> set name_fields
   \<and> lower example_env (tag_get description_tag ''name'' []) = ''description''
   \<and> lower example_env (tag_get description_tag ''property'' []) \<notin> fst ` set property_fields
   \<and> meta_key example_env description_tag = Some ''description''
   \<and> (''og:title'', ''og_title'') \<in> set property_fields
   \<and> lower example_env (tag_get og_title_tag ''property'' []) = ''og:title''
   \<and> lower example_env (tag_get og_title_tag ''name'' []) \<notin> fst ` set name_fields
   \<and> meta_key example_env og_title_tag = Some ''og_title''"
  using last_occurrence_wins [of example_env meta_html "''https://a.com/meta''"]
  by (simp add: meta_example_occurrences meta_example_tag_keys recognised_fields_def
                name_fields_def property_fields_def description_tag_def og_title_tag_def
                example_env_fields ascii_lower_examples)


text \<open>
  C6. For every link record that \<^verbatim>\<open>_extract_links\<close> returns, \<^verbatim>\<open>is_internal\<close> and
  \<^verbatim>\<open>is_external\<close> are never both true. A link whose resolved host is empty is not
  external, and it is not internal either when the page's own URL has a host (which
  every URL that can be fetched has). So when \<^verbatim>\<open>filter_internal\<close> and
  \<^verbatim>\<open>filter_external\<close> are both set, the list of links returned is empty, whatever the
  document.
\<close>

theorem internal_external_exclusive:
  assumes "extract_links E a = Inr (Links r)"
  shows "(\<forall>l \<in> set (found_links r). \<not> (link_is_internal l \<and> link_is_external l))
       \<and> (\<forall>l \<in> set (found_links r).
            urlparse_netloc E (link_url l) = Inr [] \<longrightarrow>
              \<not> link_is_external l
            \<and> (urlparse_netloc E (source_url r) \<noteq> Inr [] \<longrightarrow> \<not> link_is_internal l))
       \<and> (arg_filter_internal a = Some True \<and> arg_filter_external a = Some True \<longrightarrow>
            found_links r = [])"
proof -
  from extract_links_Links [OF assms] obtain base_domain where
      base: "urlparse_netloc E (source_url r) = Inr base_domain"
    and all: "list_all (\<lambda>l. classified E base_domain l
                  \<and> (get_or (arg_filter_internal a) False \<longrightarrow> link_is_internal l)
                  \<and> (get_or (arg_filter_external a) False \<longrightarrow> link_is_external l))
               (found_links r)"
    by blast
  have excl: "\<not> (link_is_internal l \<and> link_is_external l)" if "l \<in> set (found_links r)" for l
    using all that by (auto simp: list_all_iff dest: classified_exclusive)
  have nohost: "\<not> link_is_external l
            \<and> (urlparse_netloc E (source_url r) \<noteq> Inr [] \<longrightarrow> \<not> link_is_internal l)"
    if "l \<in> set (found_links r)" and "urlparse_netloc E (link_url l) = Inr []" for l
  proof -
    from all that(1) have "classified E base_domain l" by (simp add: list_all_iff)
    with that(2) base show ?thesis by (auto simp: classified_def)
  qed
  have both: "found_links r = []"
    if "arg_filter_internal a = Some True \<and> arg_filter_external a = Some True"
  proof (rule ccontr)
    assume "found_links r \<noteq> []"
    then obtain l where l: "l \<in> set (found_links r)" by (cases "found_links r") auto
    with all that have "link_is_internal l \<and> link_is_external l"
      by (simp add: list_all_iff get_or_def)
    with excl [OF l] show False by simp
  qed
  from excl nohost both show ?thesis by blast
qed

theorem internal_external_exclusive_witness:
  "extract_links example_env links_example =
     Inr (Links \<lparr> source_url = ''https://a.com/links'', total_links = 3,
                  internal_count = 1, external_count = 1,
                  found_links =
                    [\<lparr> link_url = ''https://a.com/x'', link_text = ''X'', link_title = [],
                       link_is_internal = True, link_is_external = False \<rparr>,
                     \<lparr> link_url = ''https://b.com/y'', link_text = ''Y'', link_title = [],
                       link_is_internal = False, link_is_external = True \<rparr>,
                     \<lparr> link_url = ''mailto:m@b.com'', link_text = ''M'', link_title = [],
                       link_is_internal = False, link_is_external = False \<rparr>] \<rparr>)
   \<and> urlparse_netloc example_env ''mailto:m@b.com'' = Inr []
   \<and> urlparse_netloc example_env ''https://a.com/links'' \<noteq> Inr []
   \<and> arg_filter_internal links_example_filtered = Some True
   \<and> arg_filter_external links_example_filtered = Some True
   \<and> extract_links example_env links_example_filtered =
       Inr (Links \<lparr> source_url = ''https://a.com/links'', total_links = 0,
                    internal_count = 0, external_count = 0, found_links = [] \<rparr>)"
proof -
  have hosts: "urlparse_netloc example_env ''mailto:m@b.com'' = Inr []"
      "urlparse_netloc example_env ''https://a.com/links'' \<noteq> Inr []"
    by (simp_all add: example_env_fields example_netloc_def startswith_def)
  have filters: "arg_filter_internal links_example_filtered = Some True"
      "arg_filter_external links_example_filtered = Some True"
    by (simp_all add: links_example_filtered_def no_args_def)
  from internal_external_exclusive [OF links_example_result]
       internal_external_exclusive [OF links_example_filtered_result]
  show ?thesis
    using links_example_result links_example_filtered_result hosts filters by simp
qed





text \<open>
  C9. In the case-insensitive mode (\<^verbatim>\<open>case_sensitive\<close> absent or false) the \<^verbatim>\<open>term\<close>
  of every match returned is the lower-cased form of one of the caller's terms, while the
  field \<^verbatim>\<open>search_terms\<close> of the response echoes the caller's terms unchanged.
\<close>

theorem insensitive_search_terms_lowered:
  assumes "search_webpage_content E a = Inr (Searched r)"
    and "arg_case_sensitive a \<noteq> Some True"
  shows "arg_search_terms a = Some (echoed_search_terms r)
       \<and> (\<forall>m \<in> set (found_matches r). \<exists>t \<in> set (echoed_search_terms r). match_term m = lower E t)"
proof -
  from assms(1) obtain search_terms content where
      terms: "arg_search_terms a = Some search_terms" "echoed_search_terms r = search_terms"
    and found: "found_matches r = find_matches E content search_terms
                                (get_or (arg_case_sensitive a) False)
                                (get_or (arg_context_chars a) 200)"
    by (blast dest: search_webpage_content_Searched)
  from assms(2) have insensitive: "get_or (arg_case_sensitive a) False = False"
    by (cases "arg_case_sensitive a") (simp_all add: get_or_def)
  have "\<exists>t \<in> set search_terms. match_term m = lower E t" if "m \<in> set (found_matches r)" for m
  proof -
    from that found insensitive
    have "m \<in> set (find_matches E content search_terms False (get_or (arg_context_chars a) 200))"
      by simp
    then obtain t pos where "m = new_match content (get_or (arg_context_chars a) 200) t pos"
        and "t \<in> set (map (lower E) search_terms)"
      by (auto dest!: find_matches_elems)
    then show ?thesis by (auto simp: match_term_new_match)
  qed
  with terms show ?thesis by simp
qed

theorem insensitive_search_terms_lowered_witness:
  "search_webpage_content example_env search_example =
     Inr (Searched \<lparr> search_url = ''https://a.com/p'', echoed_search_terms = [''WORLD''],
                     total_matches = 1,
                     found_matches = [\<lparr>match_term = ''world'', match_position = 6,
                                       match_context = ''o\<newline>World'', match_context_start = 4,
                                       match_context_end = 11\<rparr>],
                     search_content_length = 11 \<rparr>)
   \<and> arg_case_sensitive search_example \<noteq> Some True
   \<and> arg_search_terms search_example = Some [''WORLD'']
   \<and> ascii_lower ''WORLD'' = ''world''"
proof -
  have insensitive: "arg_case_sensitive search_example \<noteq> Some True"
    by (simp add: search_example_def no_args_def)
  from insensitive_search_terms_lowered [OF search_example_result insensitive]
  show ?thesis
    using search_example_result insensitive by (simp add: example_env_fields)
qed


text \<open>
  C10. For every successful result of \<^verbatim>\<open>_extract_links\<close>, \<^verbatim>\<open>total_links\<close> is the
  length of the list of links, \<^verbatim>\<open>internal_count\<close> the number of records with
  \<^verbatim>\<open>is_internal\<close> true and \<^verbatim>\<open>external_count\<close> the number with \<^verbatim>\<open>is_external\<close> true;
  hence \<^verbatim>\<open>internal_count + external_count\<close> is at most \<^verbatim>\<open>total_links\<close>.
\<close>

theorem link_counts:
  assumes "extract_links E a = Inr (Links r)"
  shows "total_links r = length (found_links r)
       \<and> internal_count r = length (filter link_is_internal (found_links r))
       \<and> external_count r = length (filter link_is_external (found_links r))
       \<and> internal_count r + external_count r \<le> total_links r"
proof -
  from extract_links_Links [OF assms] obtain base_domain where
      counts: "total_links r = length (found_links r)"
        "internal_count r = length (filter link_is_internal (found_links r))"
        "external_count r = length (filter link_is_external (found_links r))"
    and all: "list_all (\<lambda>l. classified E base_domain l
                  \<and> (get_or (arg_filter_internal a) False \<longrightarrow> link_is_internal l)
                  \<and> (get_or (arg_filter_external a) False \<longrightarrow> link_is_external l))
               (found_links r)"
    by blast
  from all have "list_all (\<lambda>l. \<not> (link_is_internal l \<and> link_is_external l)) (found_links r)"
    by (auto simp: list_all_iff dest: classified_exclusive)
  then have "length (filter link_is_internal (found_links r))
           + length (filter link_is_external (found_links r)) \<le> length (found_links r)"
    by (rule exclusive_counts)
  with counts show ?thesis by simp
qed

theorem link_counts_witness:
  "extract_links example_env links_example =
     Inr (Links \<lparr> source_url = ''https://a.com/links'', total_links = 3,
                  internal_count = 1, external_count = 1,
                  found_links =
                    [\<lparr> link_url = ''https://a.com/x'', link_text = ''X'', link_title = [],
                       link_is_internal = True, link_is_external = False \<rparr>,
                     \<lparr> link_url = ''https://b.com/y'', link_text = ''Y'', link_title = [],
                       link_is_internal = False, link_is_external = True \<rparr>,
                     \<lparr> link_url = ''mailto:m@b.com'', link_text = ''M'', link_title = [],
                       link_is_internal = False, link_is_external = False \<rparr>] \<rparr>)
   \<and> (1::nat) + 1 \<le> 3"
  using link_counts [OF links_example_result] links_example_result by simp


end
